theory Spec2Isabelle
  imports Complex_Main
begin

section \<open>The layout engine of the two converters\<close>

text \<open>
  The repository holds two near-duplicate worker classes:
  \<^item> \<open>ImageToPDFConverter\<close> (img2pdf_v2.py): SVG and raster images, cells without margin;
  \<^item> \<open>SVGToPDFConverter\<close> (image_2_pdf.py): SVG only, a 20 point page margin and a
    10 point padding inside each cell.

  Python floats are modelled by exact rationals (\<open>rat\<close>); rounding, infinities and NaN are
  outside the model. The Qt signals and the calls on the reportlab canvas are recorded, in
  the order the code makes them, in a trace of events. The libraries the code calls
  (\<open>svg2rlg\<close>, \<open>ImageReader\<close>, \<open>renderPDF.draw\<close>, \<open>drawImage\<close>, \<open>Canvas.save\<close>,
  \<open>Path.suffix\<close>, \<open>os.path.basename\<close>) are parameters, collected in the record \<open>env\<close>.
\<close>

subsection \<open>Exceptions, library results, events\<close>

datatype exn =
    ValueError string
  | ZeroDivisionError
  | LibraryError string

text \<open>
  What \<open>svg2rlg(path)\<close> does: it raises, returns \<open>None\<close>, or returns a drawing whose
  \<open>width\<close> and \<open>height\<close> attributes are numbers or absent (\<open>None\<close>).
\<close>

datatype svg_result =
    Svg_raises string
  | Svg_none
  | Svg_drawing "rat option" "rat option"

text \<open>What \<open>ImageReader(path)\<close> followed by \<open>getSize()\<close> does.\<close>

datatype reader_result =
    Reader_raises string
  | Reader_size rat rat

record env =
  suffix_lower :: "string \<Rightarrow> string"
  basename :: "string \<Rightarrow> string"
  svg2rlg :: "string \<Rightarrow> svg_result"
  ImageReader :: "string \<Rightarrow> reader_result"
  draw_error :: "string \<Rightarrow> string option"
  save_error :: "string option"

text \<open>
  \<open>draw_error env f = Some msg\<close>: scaling and rendering the loaded image of file \<open>f\<close> onto
  the canvas raises with message \<open>msg\<close>. \<open>save_error env = Some msg\<close>: \<open>c.save()\<close> raises.
\<close>

datatype kind = SVG | Rasterbild | Plain

text \<open>The texts sent on \<open>status_updated\<close>, by their format string and arguments.\<close>

datatype status =
    Warnung_Bilder_pro_Seite
  | Verarbeite_Seite nat
  | Uebersprungen string
  | Verarbeitet string kind rat
  | Fehler_bei string exn

datatype finish_msg =
    Erfolgreich_abgeschlossen
  | Fehler_bei_der_Konvertierung exn

datatype event =
    Canvas bool
  | Status status
  | Progress int
  | ShowPage
  | SetPageCompression
  | RenderPDF_draw string rat rat rat
  | DrawImage string rat rat rat rat
  | Save
  | Finished bool finish_msg

text \<open>
  \<open>Canvas pc\<close>: the canvas is constructed, with \<open>pageCompression=1\<close> iff \<open>pc\<close>.
  \<open>RenderPDF_draw f scale x y\<close>: \<open>drawing.scale(scale, scale)\<close> and
  \<open>renderPDF.draw(drawing, c, x, y)\<close> for the drawing of file \<open>f\<close>.
  \<open>DrawImage f x y w h\<close>: \<open>c.drawImage(img, x, y, width=w, height=h)\<close>.
\<close>

record config =
  image_files :: "string list"
  images_per_page :: int
  page_size :: "rat \<times> rat"
  high_quality :: bool

record conv_state =
  files_processed :: nat
  trace :: "event list"

definition emit :: "event list \<Rightarrow> conv_state \<Rightarrow> conv_state" where
  "emit evs st = st\<lparr>trace := trace st @ evs\<rparr>"

subsection \<open>Grid and placement\<close>

definition cols :: nat where "cols = 3"
definition rows :: nat where "rows = 3"
definition margin :: rat where "margin = 20"

text \<open>\<open>row = i // cols\<close>, \<open>col = i % cols\<close> (both files).\<close>

definition slot :: "nat \<Rightarrow> nat \<times> nat" where
  "slot i = (i div cols, i mod cols)"

text \<open>\<open>enumerate(page_files)\<close>.\<close>

definition enumerate_py :: "'a list \<Rightarrow> (nat \<times> 'a) list" where
  "enumerate_py xs = zip [0 ..< length xs] xs"

record placement =
  cell_x :: rat
  cell_y :: rat
  scale :: rat
  scaled_width :: rat
  scaled_height :: rat
  centered_x :: rat
  centered_y :: rat

text \<open>
  img2pdf_v2.py, lines 60-61 and 116-137. The cell of slot \<open>(row, col)\<close> starts at
  \<open>(col * cell_width, page_height - (row + 1) * cell_height)\<close>. A zero divisor raises
  \<open>ZeroDivisionError\<close>.
\<close>

definition cell_size_images :: "rat \<times> rat \<Rightarrow> rat \<times> rat" where
  "cell_size_images ps = (fst ps / of_nat cols, snd ps / of_nat rows)"

definition place_image :: "rat \<times> rat \<Rightarrow> nat \<Rightarrow> rat \<Rightarrow> rat \<Rightarrow> exn + placement" where
  "place_image ps i img_width img_height =
     (let page_height = snd ps;
          cell_width = fst (cell_size_images ps);
          cell_height = snd (cell_size_images ps);
          row = fst (slot i);
          col = snd (slot i)
      in if img_width = 0 \<or> img_height = 0 then Inl ZeroDivisionError
         else
           let scale_x = cell_width / img_width;
               scale_y = cell_height / img_height;
               scale = min scale_x scale_y;
               scaled_width = img_width * scale;
               scaled_height = img_height * scale;
               x = of_nat col * cell_width;
               y = page_height - (of_nat row + 1) * cell_height
           in Inr \<lparr>cell_x = x, cell_y = y, scale = scale,
                   scaled_width = scaled_width, scaled_height = scaled_height,
                   centered_x = x + (cell_width - scaled_width) / 2,
                   centered_y = y + (cell_height - scaled_height) / 2\<rparr>)"

text \<open>
  image_2_pdf.py, lines 51-59 and 78-109: the margin of 20, the padding of 10, and the
  \<open>high_quality\<close> branch \<open>max_scale = min(2.0, scale); scale = max(scale, max_scale)\<close>.
\<close>

definition cell_size_svgs :: "rat \<times> rat \<Rightarrow> rat \<times> rat" where
  "cell_size_svgs ps =
     ((fst ps - 2 * margin) / of_nat cols, (snd ps - 2 * margin) / of_nat rows)"

definition place_svg :: "bool \<Rightarrow> rat \<times> rat \<Rightarrow> nat \<Rightarrow> rat \<Rightarrow> rat \<Rightarrow> exn + placement" where
  "place_svg hq ps i svg_width svg_height =
     (let page_height = snd ps;
          cell_width = fst (cell_size_svgs ps);
          cell_height = snd (cell_size_svgs ps);
          row = fst (slot i);
          col = snd (slot i);
          x = margin + of_nat col * cell_width;
          y = page_height - margin - (of_nat row + 1) * cell_height
      in if svg_width = 0 \<or> svg_height = 0 then Inl ZeroDivisionError
         else
           let scale_x = (cell_width - 10) / svg_width;
               scale_y = (cell_height - 10) / svg_height;
               scale0 = min scale_x scale_y;
               scale = (if hq then max scale0 (min 2 scale0) else scale0);
               scaled_width = svg_width * scale;
               scaled_height = svg_height * scale
           in Inr \<lparr>cell_x = x, cell_y = y, scale = scale,
                   scaled_width = scaled_width, scaled_height = scaled_height,
                   centered_x = x + (cell_width - scaled_width) / 2,
                   centered_y = y + (cell_height - scaled_height) / 2\<rparr>)"

subsection \<open>The body of the \<open>try\<close> block, per image\<close>

text \<open>
  The result is the list of events the block emits and whether control reaches the
  statements after the \<open>try\<close> (\<open>files_processed += 1\<close> and the progress signal):
  \<open>False\<close> stands for the \<open>continue\<close> of the unsupported-format branch and of the
  exception handler.
\<close>

text \<open>img2pdf_v2.py, lines 99-106: the intrinsic size of an SVG, with the fallback.\<close>

definition svg_size_images :: "rat \<times> rat \<Rightarrow> svg_result \<Rightarrow> rat \<times> rat" where
  "svg_size_images cell r =
     (case r of
        Svg_drawing (Some w) (Some h) \<Rightarrow> if w = 0 \<or> h = 0 then cell else (w, h)
      | Svg_drawing _ _ \<Rightarrow> cell
      | _ \<Rightarrow> (0, 0))"

definition raster_exts :: "string list" where
  "raster_exts = [''.png'', ''.jpg'', ''.jpeg'', ''.webp'']"

definition process_image :: "env \<Rightarrow> config \<Rightarrow> nat \<Rightarrow> string \<Rightarrow> event list \<times> bool" where
  "process_image e cfg i image_file =
     (let ps = page_size cfg;
          name = basename e image_file;
          file_extension = suffix_lower e image_file;
          fail = (\<lambda>pre x. (pre @ [Status (Fehler_bei name x)], False));
          pre = (if high_quality cfg then [SetPageCompression] else [])
      in if file_extension = ''.svg'' then
           (case svg2rlg e image_file of
              Svg_raises msg \<Rightarrow> fail [] (LibraryError msg)
            | r \<Rightarrow>
               (case place_image ps i (fst (svg_size_images (cell_size_images ps) r))
                                      (snd (svg_size_images (cell_size_images ps) r)) of
                  Inl x \<Rightarrow> fail [] x
                | Inr p \<Rightarrow>
                   (case draw_error e image_file of
                      Some msg \<Rightarrow> fail pre (LibraryError msg)
                    | None \<Rightarrow>
                       (pre @ [RenderPDF_draw image_file (scale p) (centered_x p) (centered_y p),
                               Status (Verarbeitet name SVG (scale p))], True))))
         else if file_extension \<in> set raster_exts then
           (case ImageReader e image_file of
              Reader_raises msg \<Rightarrow> fail [] (LibraryError msg)
            | Reader_size img_width img_height \<Rightarrow>
               (case place_image ps i img_width img_height of
                  Inl x \<Rightarrow> fail [] x
                | Inr p \<Rightarrow>
                   (case draw_error e image_file of
                      Some msg \<Rightarrow> fail pre (LibraryError msg)
                    | None \<Rightarrow>
                       (pre @ [DrawImage image_file (centered_x p) (centered_y p)
                                 (scaled_width p) (scaled_height p),
                               Status (Verarbeitet name Rasterbild (scale p))], True))))
         else ([Status (Uebersprungen name)], False))"

text \<open>image_2_pdf.py, lines 81-124. A \<open>None\<close> drawing skips the whole \<open>if drawing:\<close> block.\<close>

definition svg_size_svgs :: "rat \<times> rat \<Rightarrow> rat option \<Rightarrow> rat option \<Rightarrow> rat \<times> rat" where
  "svg_size_svgs cell w h =
     (case (w, h) of
        (Some w', Some h') \<Rightarrow>
          if w' = 0 \<or> h' = 0 then (fst cell - 10, snd cell - 10) else (w', h')
      | _ \<Rightarrow> (fst cell - 10, snd cell - 10))"

definition process_svg :: "env \<Rightarrow> config \<Rightarrow> nat \<Rightarrow> string \<Rightarrow> event list \<times> bool" where
  "process_svg e cfg i svg_file =
     (let ps = page_size cfg;
          name = basename e svg_file;
          fail = (\<lambda>pre x. (pre @ [Status (Fehler_bei name x)], False));
          pre = (if high_quality cfg then [SetPageCompression] else [])
      in case svg2rlg e svg_file of
           Svg_raises msg \<Rightarrow> fail [] (LibraryError msg)
         | Svg_none \<Rightarrow> ([], True)
         | Svg_drawing w h \<Rightarrow>
            (case place_svg (high_quality cfg) ps i
                    (fst (svg_size_svgs (cell_size_svgs ps) w h))
                    (snd (svg_size_svgs (cell_size_svgs ps) w h)) of
               Inl x \<Rightarrow> fail [] x
             | Inr p \<Rightarrow>
                (case draw_error e svg_file of
                   Some msg \<Rightarrow> fail pre (LibraryError msg)
                 | None \<Rightarrow>
                    (pre @ [RenderPDF_draw svg_file (scale p) (centered_x p) (centered_y p),
                            Status (Verarbeitet name Plain (scale p))], True))))"

subsection \<open>The two loops\<close>

text \<open>\<open>int((files_processed / total_files) * 100)\<close>, on a non-negative quotient.\<close>

definition progress :: "nat \<Rightarrow> nat \<Rightarrow> int" where
  "progress fp total_files = \<lfloor>(of_nat fp / of_nat total_files :: rat) * 100\<rfloor>"

text \<open>
  One iteration of \<open>for i, image_file in enumerate(page_files)\<close>. The loops of the two files
  are the same text; they differ in the \<open>try\<close> block only, the parameter \<open>proc\<close>.
\<close>

definition image_step ::
  "(nat \<Rightarrow> string \<Rightarrow> event list \<times> bool) \<Rightarrow> nat \<Rightarrow> nat \<Rightarrow> string \<Rightarrow> conv_state \<Rightarrow> conv_state" where
  "image_step proc total_files i image_file st =
     (let st1 = emit (fst (proc i image_file)) st
      in if snd (proc i image_file) then
           emit [Progress (progress (files_processed st1 + 1) total_files)]
             (st1\<lparr>files_processed := files_processed st1 + 1\<rparr>)
         else st1)"

fun image_loop ::
  "(nat \<Rightarrow> string \<Rightarrow> event list \<times> bool) \<Rightarrow> nat \<Rightarrow> (nat \<times> string) list \<Rightarrow> conv_state \<Rightarrow> conv_state" where
  "image_loop proc total_files [] st = st"
| "image_loop proc total_files ((i, image_file) # rest) st =
     image_loop proc total_files rest (image_step proc total_files i image_file st)"

text \<open>
  One iteration of \<open>for page_num in range(0, total_files, images_per_page)\<close>, for a
  positive step \<open>ipp\<close>: the slice, the page status, \<open>showPage\<close> for every page but the first,
  the images.
\<close>

definition page_body ::
  "(nat \<Rightarrow> string \<Rightarrow> event list \<times> bool) \<Rightarrow> string list \<Rightarrow> nat \<Rightarrow> nat \<Rightarrow> conv_state \<Rightarrow> conv_state" where
  "page_body proc files ipp page_num st =
     (let page_files = take ipp (drop page_num files);
          st1 = emit [Status (Verarbeite_Seite (page_num div ipp + 1))] st;
          st2 = (if page_num > 0 then emit [ShowPage] st1 else st1)
      in image_loop proc (length files) (enumerate_py page_files) st2)"

function page_loop ::
  "(nat \<Rightarrow> string \<Rightarrow> event list \<times> bool) \<Rightarrow> string list \<Rightarrow> nat \<Rightarrow> nat \<Rightarrow> conv_state \<Rightarrow> conv_state" where
  "page_loop proc files ipp page_num st =
     (if 0 < ipp \<and> page_num < length files
      then page_loop proc files ipp (page_num + ipp) (page_body proc files ipp page_num st)
      else st)"
  by pat_completeness auto
termination
  by (relation "measure (\<lambda>(proc, files, ipp, page_num, st). length files - page_num)") auto

declare page_loop.simps [simp del]

text \<open>
  The statements after the construction of the canvas, shared by both files:
  \<open>range\<close> raises \<open>ValueError\<close> on a zero step and is empty on a negative one; \<open>c.save()\<close>
  comes last. The result is the trace and the exception that escapes, if any.
\<close>

definition pages_and_save ::
  "env \<Rightarrow> (nat \<Rightarrow> string \<Rightarrow> event list \<times> bool) \<Rightarrow> config \<Rightarrow> conv_state \<Rightarrow> event list \<times> exn option" where
  "pages_and_save e proc cfg st =
     (if images_per_page cfg = 0
      then (trace st, Some (ValueError ''range() arg 3 must not be zero''))
      else
        let st' = (if images_per_page cfg < 0 then st
                   else page_loop proc (image_files cfg) (nat (images_per_page cfg)) 0 st)
        in case save_error e of
             Some msg \<Rightarrow> (trace st', Some (LibraryError msg))
           | None \<Rightarrow> (trace st' @ [Save], None))"

definition convert_images_to_pdf :: "env \<Rightarrow> config \<Rightarrow> event list \<times> exn option" where
  "convert_images_to_pdf e cfg =
     (if image_files cfg = [] then ([], Some (ValueError ''Keine Bilddateien ausgewaehlt''))
      else
        let st0 = \<lparr>files_processed = 0, trace = [Canvas (high_quality cfg)]\<rparr>;
            st1 = (if images_per_page cfg \<noteq> int (cols * rows)
                   then emit [Status Warnung_Bilder_pro_Seite] st0 else st0)
        in pages_and_save e (process_image e cfg) cfg st1)"

definition convert_svgs_to_pdf :: "env \<Rightarrow> config \<Rightarrow> event list \<times> exn option" where
  "convert_svgs_to_pdf e cfg =
     (if image_files cfg = [] then ([], Some (ValueError ''Keine SVG-Dateien ausgewaehlt''))
      else
        let st0 = \<lparr>files_processed = 0, trace = [Canvas (high_quality cfg)]\<rparr>
        in pages_and_save e (process_svg e cfg) cfg st0)"

text \<open>\<open>run\<close> of both classes: the terminal signal follows everything the conversion emitted.\<close>

definition finish :: "event list \<times> exn option \<Rightarrow> event list" where
  "finish r =
     (case snd r of
        None \<Rightarrow> fst r @ [Finished True Erfolgreich_abgeschlossen]
      | Some x \<Rightarrow> fst r @ [Finished False (Fehler_bei_der_Konvertierung x)])"

definition run_images :: "env \<Rightarrow> config \<Rightarrow> event list" where
  "run_images e cfg = finish (convert_images_to_pdf e cfg)"

definition run_svgs :: "env \<Rightarrow> config \<Rightarrow> event list" where
  "run_svgs e cfg = finish (convert_svgs_to_pdf e cfg)"

subsection \<open>Reading a trace\<close>

definition progress_values :: "event list \<Rightarrow> int list" where
  "progress_values evs = concat (map (\<lambda>ev. case ev of Progress p \<Rightarrow> [p] | _ \<Rightarrow> []) evs)"

definition show_pages :: "event list \<Rightarrow> nat" where
  "show_pages evs = length (filter (\<lambda>ev. ev = ShowPage) evs)"

text \<open>
  The pages of the document a trace describes, by the writer's state machine of the
  specification: none before the canvas exists, then the implicit first page, and one more
  for each \<open>showPage\<close>.
\<close>

definition physical_pages :: "event list \<Rightarrow> nat" where
  "physical_pages evs =
     (if Canvas True \<in> set evs \<or> Canvas False \<in> set evs then 1 + show_pages evs else 0)"

subsection \<open>Rectangles on the page\<close>








text \<open>reportlab's \<open>A4 = (210*mm, 297*mm)\<close> with \<open>mm = 72 / 25.4\<close> points.\<close>

definition mm :: rat where "mm = 72 / (254 / 10)"

definition A4 :: "rat \<times> rat" where "A4 = (210 * mm, 297 * mm)"

subsection \<open>Images whose loading or drawing raises\<close>

text \<open>
  \<open>raises_images e cfg f msg\<close>: in img2pdf_v2.py, the loader chosen by the suffix of \<open>f\<close>
  raises with message \<open>msg\<close>, or it returns an image whose size (after the fallback) is
  not zero and the draw call raises with message \<open>msg\<close>. \<open>raises_svgs\<close> is the same for
  image_2_pdf.py, which has the one loader.
\<close>

definition raises_images :: "env \<Rightarrow> config \<Rightarrow> string \<Rightarrow> string \<Rightarrow> bool" where
  "raises_images e cfg f msg =
     (if suffix_lower e f = ''.svg'' then
        (case svg2rlg e f of
           Svg_raises m \<Rightarrow> m = msg
         | Svg_none \<Rightarrow> False
         | Svg_drawing w h \<Rightarrow>
             fst (svg_size_images (cell_size_images (page_size cfg)) (Svg_drawing w h)) \<noteq> 0
           \<and> snd (svg_size_images (cell_size_images (page_size cfg)) (Svg_drawing w h)) \<noteq> 0
           \<and> draw_error e f = Some msg)
      else if suffix_lower e f \<in> set raster_exts then
        (case ImageReader e f of
           Reader_raises m \<Rightarrow> m = msg
         | Reader_size w h \<Rightarrow> w \<noteq> 0 \<and> h \<noteq> 0 \<and> draw_error e f = Some msg)
      else False)"

definition raises_svgs :: "env \<Rightarrow> config \<Rightarrow> string \<Rightarrow> string \<Rightarrow> bool" where
  "raises_svgs e cfg f msg =
     (case svg2rlg e f of
        Svg_raises m \<Rightarrow> m = msg
      | Svg_none \<Rightarrow> False
      | Svg_drawing w h \<Rightarrow>
          fst (svg_size_svgs (cell_size_svgs (page_size cfg)) w h) \<noteq> 0
        \<and> snd (svg_size_svgs (cell_size_svgs (page_size cfg)) w h) \<noteq> 0
        \<and> draw_error e f = Some msg)"

subsection \<open>A small concrete environment\<close>

text \<open>
  Five files: \<open>a.svg\<close> loads as a 100 by 50 drawing, \<open>b.png\<close> is a 200 by 100 raster
  image, \<open>c.txt\<close> has an unsupported suffix, \<open>svg2rlg\<close> raises on \<open>d.svg\<close> and returns
  \<open>None\<close> on \<open>e.svg\<close>. Drawing and saving succeed. The page is 600 by 900 points.
\<close>

definition example_env :: env where
  "example_env =
     \<lparr>suffix_lower = (\<lambda>f. if f = ''b.png'' then ''.png'' else if f = ''c.txt'' then ''.txt'' else ''.svg''),
      basename = (\<lambda>f. f),
      svg2rlg = (\<lambda>f. if f = ''d.svg'' then Svg_raises ''bad''
                     else if f = ''e.svg'' then Svg_none
                     else Svg_drawing (Some 100) (Some 50)),
      ImageReader = (\<lambda>f. Reader_size 200 100),
      draw_error = (\<lambda>f. None),
      save_error = None\<rparr>"

definition example_cfg :: "string list \<Rightarrow> int \<Rightarrow> config" where
  "example_cfg files ipp =
     \<lparr>image_files = files, images_per_page = ipp, page_size = (600, 900), high_quality = False\<rparr>"

section \<open>Placement\<close>

lemma place_image_fields:
  assumes "place_image ps i w h = Inr p"
  shows "cell_x p = of_nat (i mod 3) * fst (cell_size_images ps)"
    and "cell_y p = snd ps - (of_nat (i div 3) + 1) * snd (cell_size_images ps)"
    and "scale p = min (fst (cell_size_images ps) / w) (snd (cell_size_images ps) / h)"
    and "scaled_width p = w * scale p"
    and "scaled_height p = h * scale p"
    and "centered_x p = cell_x p + (fst (cell_size_images ps) - scaled_width p) / 2"
    and "centered_y p = cell_y p + (snd (cell_size_images ps) - scaled_height p) / 2"
    and "w \<noteq> 0" and "h \<noteq> 0"
  using assms
  by (auto simp: place_image_def Let_def slot_def cols_def split: if_splits)

lemma place_svg_fields:
  assumes "place_svg hq ps i w h = Inr q"
  shows "cell_x q = 20 + of_nat (i mod 3) * fst (cell_size_svgs ps)"
    and "cell_y q = snd ps - 20 - (of_nat (i div 3) + 1) * snd (cell_size_svgs ps)"
    and "scale q = min ((fst (cell_size_svgs ps) - 10) / w) ((snd (cell_size_svgs ps) - 10) / h)"
    and "scaled_width q = w * scale q"
    and "scaled_height q = h * scale q"
    and "centered_x q = cell_x q + (fst (cell_size_svgs ps) - scaled_width q) / 2"
    and "centered_y q = cell_y q + (snd (cell_size_svgs ps) - scaled_height q) / 2"
    and "w \<noteq> 0" and "h \<noteq> 0"
  using assms
  by (auto simp: place_svg_def Let_def slot_def cols_def margin_def max_def min_def
      split: if_splits)


lemma centre_eq: "x + (c - s) / 2 + s / 2 = x + c / (2::rat)"
  by (simp add: field_simps)



text \<open>
  C4. In the margin variant with \<open>high_quality\<close> set, the scale applied to an image whose
  fit scale would enlarge it is meant to be capped at 2.0 (the comment on the line says
  "Maximal 2x Vergroesserung"). The code does not cap it: for a 10 by 10 point SVG in slot 0
  of an A4 page the fit scale is \<open>6671 / 381\<close> (about 17.5), and that is the scale applied.
\<close>

theorem upscale_not_clamped:
  "\<exists>p. place_svg True A4 0 10 10 = Inr p \<and> scale p = 6671 / 381 \<and> 2 < scale p"
  by (simp add: place_svg_def cell_size_svgs_def A4_def mm_def margin_def slot_def
      cols_def rows_def Let_def)

text \<open>The cause: \<open>max(scale, min(2.0, scale))\<close> is \<open>scale\<close>, so the flag changes nothing.\<close>

lemma upscale_is_fit_scale:
  "place_svg True ps i w h = place_svg False ps i w h"
  by (simp add: place_svg_def Let_def max_def min_def)

text \<open>
  C5. Every placement is centered in its cell, on each axis on its own: the middle of the
  drawn rectangle is the middle of the cell, whose origin is
  \<open>(col * cw, page_height - (row + 1) * ch)\<close>, shifted by the margin of 20 in the margin
  variant.
\<close>

theorem centered_in_cell:
  "(place_image ps i w h = Inr p \<longrightarrow>
      cell_x p = of_nat (i mod 3) * fst (cell_size_images ps)
    \<and> cell_y p = snd ps - (of_nat (i div 3) + 1) * snd (cell_size_images ps)
    \<and> centered_x p + scaled_width p / 2 = cell_x p + fst (cell_size_images ps) / 2
    \<and> centered_y p + scaled_height p / 2 = cell_y p + snd (cell_size_images ps) / 2)
 \<and> (place_svg hq ps i w h = Inr q \<longrightarrow>
      cell_x q = 20 + of_nat (i mod 3) * fst (cell_size_svgs ps)
    \<and> cell_y q = snd ps - 20 - (of_nat (i div 3) + 1) * snd (cell_size_svgs ps)
    \<and> centered_x q + scaled_width q / 2 = cell_x q + fst (cell_size_svgs ps) / 2
    \<and> centered_y q + scaled_height q / 2 = cell_y q + snd (cell_size_svgs ps) / 2)"
proof (intro conjI impI)
  assume a: "place_image ps i w h = Inr p"
  show "cell_x p = of_nat (i mod 3) * fst (cell_size_images ps)"
    and "cell_y p = snd ps - (of_nat (i div 3) + 1) * snd (cell_size_images ps)"
    using place_image_fields(1,2)[OF a] by simp_all
  show "centered_x p + scaled_width p / 2 = cell_x p + fst (cell_size_images ps) / 2"
    unfolding place_image_fields(6)[OF a] by (rule centre_eq)
  show "centered_y p + scaled_height p / 2 = cell_y p + snd (cell_size_images ps) / 2"
    unfolding place_image_fields(7)[OF a] by (rule centre_eq)
next
  assume b: "place_svg hq ps i w h = Inr q"
  show "cell_x q = 20 + of_nat (i mod 3) * fst (cell_size_svgs ps)"
    and "cell_y q = snd ps - 20 - (of_nat (i div 3) + 1) * snd (cell_size_svgs ps)"
    using place_svg_fields(1,2)[OF b] by simp_all
  show "centered_x q + scaled_width q / 2 = cell_x q + fst (cell_size_svgs ps) / 2"
    unfolding place_svg_fields(6)[OF b] by (rule centre_eq)
  show "centered_y q + scaled_height q / 2 = cell_y q + snd (cell_size_svgs ps) / 2"
    unfolding place_svg_fields(7)[OF b] by (rule centre_eq)
qed

theorem centered_in_cell_witness:
  "place_image (600, 900) 4 200 100 =
     Inr \<lparr>cell_x = 200, cell_y = 300, scale = 1, scaled_width = 200, scaled_height = 100,
          centered_x = 200, centered_y = 400\<rparr>
   \<and> (200::rat) + 200 / 2 = 200 + fst (cell_size_images (600, 900)) / 2
   \<and> (400::rat) + 100 / 2 = 300 + snd (cell_size_images (600, 900)) / 2
   \<and> place_svg True (640, 940) 4 100 50 =
     Inr \<lparr>cell_x = 220, cell_y = 320, scale = 19 / 10, scaled_width = 190, scaled_height = 95,
          centered_x = 225, centered_y = 845 / 2\<rparr>
   \<and> (225::rat) + 190 / 2 = 220 + fst (cell_size_svgs (640, 940)) / 2
   \<and> (845 / 2::rat) + 95 / 2 = 320 + snd (cell_size_svgs (640, 940)) / 2"
proof -
  let ?p = "\<lparr>cell_x = 200, cell_y = 300, scale = 1, scaled_width = 200, scaled_height = 100,
          centered_x = 200, centered_y = 400::rat\<rparr>"
  let ?q = "\<lparr>cell_x = 220, cell_y = 320, scale = 19 / 10, scaled_width = 190, scaled_height = 95,
          centered_x = 225, centered_y = 845 / 2::rat\<rparr>"
  have a: "place_image (600, 900) 4 200 100 = Inr ?p"
    by (simp add: place_image_def cell_size_images_def slot_def cols_def rows_def Let_def)
  have b: "place_svg True (640, 940) 4 100 50 = Inr ?q"
    by (simp add: place_svg_def cell_size_svgs_def margin_def slot_def cols_def rows_def Let_def)
  have a': "centered_x ?p + scaled_width ?p / 2 = cell_x ?p + fst (cell_size_images (600, 900)) / 2
     \<and> centered_y ?p + scaled_height ?p / 2 = cell_y ?p + snd (cell_size_images (600, 900)) / 2"
    using centered_in_cell[THEN conjunct1, rule_format, OF a] by blast
  have b': "centered_x ?q + scaled_width ?q / 2 = cell_x ?q + fst (cell_size_svgs (640, 940)) / 2
     \<and> centered_y ?q + scaled_height ?q / 2 = cell_y ?q + snd (cell_size_svgs (640, 940)) / 2"
    using centered_in_cell[THEN conjunct2, rule_format, OF b] by blast
  from a' have a'': "(200::rat) + 200 / 2 = 200 + fst (cell_size_images (600, 900)) / 2
     \<and> (400::rat) + 100 / 2 = 300 + snd (cell_size_images (600, 900)) / 2"
    by simp
  from b' have b'': "(225::rat) + 190 / 2 = 220 + fst (cell_size_svgs (640, 940)) / 2
   \<and> (845 / 2::rat) + 95 / 2 = 320 + snd (cell_size_svgs (640, 940)) / 2"
    by simp
  show ?thesis using a b a'' b'' by blast
qed

section \<open>Slots\<close>

text \<open>
  C6. The image at in-batch index \<open>i\<close> gets the slot \<open>(i div 3, i mod 3)\<close>; two indices
  with the same slot are the same index; \<open>enumerate\<close> hands out the indices
  \<open>0, 1, ..., len - 1\<close>, so the slots of one batch are pairwise distinct.
\<close>

theorem slot_injective:
  "slot i = (i div 3, i mod 3)
   \<and> (slot i = slot j \<longleftrightarrow> i = j)
   \<and> map fst (enumerate_py page_files) = [0 ..< length page_files]
   \<and> distinct (map (\<lambda>(i, f). slot i) (enumerate_py page_files))"
proof -
  have inj: "slot a = slot b \<longleftrightarrow> a = b" for a b
    by (auto simp: slot_def cols_def) (metis div_mult_mod_eq)
  have "inj slot" by (rule injI) (simp add: inj)
  then have "distinct (map slot [0 ..< length page_files])"
    by (simp add: distinct_map inj_on_def inj)
  moreover have "map (\<lambda>(i, f). slot i) (enumerate_py page_files) =
      map slot (map fst (enumerate_py page_files))"
    by (simp add: case_prod_unfold comp_def)
  ultimately show ?thesis
    by (simp add: inj enumerate_py_def) (simp add: slot_def cols_def)
qed

section \<open>Runs\<close>

text \<open>
  C7. On an empty file list the whole run is the one terminal signal
  \<open>finished_signal(False, ...)\<close> carrying the \<open>ValueError\<close>: the trace holds no canvas, no
  page, no draw call, no progress and no status event, and the document has no page.
\<close>

theorem empty_input_fails:
  "run_images e (cfg\<lparr>image_files := []\<rparr>) =
     [Finished False (Fehler_bei_der_Konvertierung (ValueError ''Keine Bilddateien ausgewaehlt''))]
 \<and> run_svgs e (cfg\<lparr>image_files := []\<rparr>) =
     [Finished False (Fehler_bei_der_Konvertierung (ValueError ''Keine SVG-Dateien ausgewaehlt''))]
 \<and> physical_pages (run_images e (cfg\<lparr>image_files := []\<rparr>)) = 0
 \<and> physical_pages (run_svgs e (cfg\<lparr>image_files := []\<rparr>)) = 0"
  by (simp add: run_images_def run_svgs_def convert_images_to_pdf_def convert_svgs_to_pdf_def
      finish_def physical_pages_def)

text \<open>
  C9. In the SVG-only file, when \<open>svg2rlg\<close> returns \<open>None\<close> for a file, the \<open>try\<close> block
  emits nothing (no status, no draw call) and falls through: the iteration counts the file
  and emits one progress value, and nothing else.
\<close>

theorem none_drawing_silent:
  assumes "svg2rlg e svg_file = Svg_none"
  shows "process_svg e cfg i svg_file = ([], True)
       \<and> image_step (process_svg e cfg) total_files i svg_file st =
           st\<lparr>files_processed := files_processed st + 1,
              trace := trace st @ [Progress (progress (files_processed st + 1) total_files)]\<rparr>"
  using assms by (simp add: process_svg_def image_step_def emit_def Let_def)

theorem none_drawing_silent_witness:
  "svg2rlg \<lparr>suffix_lower = (\<lambda>f. ''.svg''), basename = (\<lambda>f. f), svg2rlg = (\<lambda>f. Svg_none),
         ImageReader = (\<lambda>f. Reader_raises ''''), draw_error = (\<lambda>f. None), save_error = None\<rparr>
      ''a.svg'' = Svg_none
   \<and> image_step (process_svg \<lparr>suffix_lower = (\<lambda>f. ''.svg''), basename = (\<lambda>f. f),
         svg2rlg = (\<lambda>f. Svg_none), ImageReader = (\<lambda>f. Reader_raises ''''),
         draw_error = (\<lambda>f. None), save_error = None\<rparr>
        \<lparr>image_files = [''a.svg'', ''b.svg''], images_per_page = 9, page_size = A4,
         high_quality = True\<rparr>) 2 0 ''a.svg'' \<lparr>files_processed = 0, trace = []\<rparr>
     = \<lparr>files_processed = 1, trace = [Progress 50]\<rparr>"
proof -
  let ?e = "\<lparr>suffix_lower = (\<lambda>f. ''.svg''), basename = (\<lambda>f. f),
         svg2rlg = (\<lambda>f. Svg_none), ImageReader = (\<lambda>f. Reader_raises ''''),
         draw_error = (\<lambda>f. None), save_error = None\<rparr>"
  have h: "svg2rlg ?e ''a.svg'' = Svg_none" by simp
  have p: "progress 1 2 = 50" by (simp add: progress_def)
  show ?thesis
    using h none_drawing_silent[OF h, where total_files = 2 and i = 0
        and st = "\<lparr>files_processed = 0, trace = []\<rparr>"
        and cfg = "\<lparr>image_files = [''a.svg'', ''b.svg''], images_per_page = 9, page_size = A4,
         high_quality = True\<rparr>"] p
    by simp
qed

section \<open>The loops\<close>



lemma trace_emit: "trace (emit evs st) = trace st @ evs"
  by (simp add: emit_def)

lemma files_processed_emit: "files_processed (emit evs st) = files_processed st"
  by (simp add: emit_def)

lemma trace_image_step:
  "trace (image_step proc T i f st) =
     trace st @ fst (proc i f) @
       (if snd (proc i f) then [Progress (progress (files_processed st + 1) T)] else [])"
  by (simp add: image_step_def Let_def trace_emit files_processed_emit)





lemma image_loop_extends:
  "\<exists>evs. trace (image_loop proc T xs st) = trace st @ evs"
proof (induction xs arbitrary: st)
  case Nil
  show ?case by simp
next
  case (Cons x xs)
  obtain i f where x: "x = (i, f)" by (cases x)
  obtain evs where "trace (image_loop proc T xs (image_step proc T i f st)) =
      trace (image_step proc T i f st) @ evs"
    using Cons.IH by blast
  then show ?case
    by (simp add: x trace_image_step)
qed

lemma image_loop_contains:
  assumes "(i, f) \<in> set xs"
  shows "set (fst (proc i f)) \<subseteq> set (trace (image_loop proc T xs st))"
  using assms
proof (induction xs arbitrary: st)
  case Nil
  then show ?case by simp
next
  case (Cons x xs)
  obtain j g where x: "x = (j, g)" by (cases x)
  show ?case
  proof (cases "(i, f) = (j, g)")
    case True
    obtain evs where "trace (image_loop proc T xs (image_step proc T i f st)) =
        trace (image_step proc T i f st) @ evs"
      using image_loop_extends by blast
    then show ?thesis
      using True by (auto simp: x trace_image_step)
  next
    case False
    then have "(i, f) \<in> set xs" using Cons.prems by (auto simp: x)
    then show ?thesis using Cons.IH by (simp add: x)
  qed
qed



lemma set_enumerate_py: "(i, f) \<in> set (enumerate_py xs) \<longleftrightarrow> i < length xs \<and> xs ! i = f"
proof -
  have "(i, f) \<in> set (zip [0 ..< length xs] xs) \<longleftrightarrow>
      (\<exists>n. [0 ..< length xs] ! n = i \<and> xs ! n = f \<and> n < length [0 ..< length xs] \<and> n < length xs)"
    by (simp only: in_set_zip fst_conv snd_conv)
  also have "\<dots> \<longleftrightarrow> i < length xs \<and> xs ! i = f"
  proof
    assume "\<exists>n. [0 ..< length xs] ! n = i \<and> xs ! n = f \<and> n < length [0 ..< length xs] \<and> n < length xs"
    then show "i < length xs \<and> xs ! i = f" by auto
  next
    assume "i < length xs \<and> xs ! i = f"
    then have "[0 ..< length xs] ! i = i \<and> xs ! i = f \<and> i < length [0 ..< length xs] \<and> i < length xs"
      by simp
    then show "\<exists>n. [0 ..< length xs] ! n = i \<and> xs ! n = f \<and> n < length [0 ..< length xs] \<and> n < length xs"
      by blast
  qed
  finally show ?thesis by (simp add: enumerate_py_def)
qed

lemma emit_emit: "emit b (emit a st) = emit (a @ b) st"
  by (simp add: emit_def)

lemma page_body_eq:
  "page_body proc files ipp page_num st =
     image_loop proc (length files) (enumerate_py (take ipp (drop page_num files)))
       (emit (Status (Verarbeite_Seite (page_num div ipp + 1)) #
              (if 0 < page_num then [ShowPage] else [])) st)"
  by (simp add: page_body_def Let_def emit_emit)



lemma page_body_extends:
  "\<exists>evs. trace (page_body proc files ipp page_num st) = trace st @ evs"
proof -
  let ?st = "emit (Status (Verarbeite_Seite (page_num div ipp + 1)) #
              (if 0 < page_num then [ShowPage] else [])) st"
  obtain evs where "trace (page_body proc files ipp page_num st) = trace ?st @ evs"
    unfolding page_body_eq using image_loop_extends by blast
  then have "trace (page_body proc files ipp page_num st) =
      trace st @ ((Status (Verarbeite_Seite (page_num div ipp + 1)) #
              (if 0 < page_num then [ShowPage] else [])) @ evs)"
    by (simp only: trace_emit append_assoc)
  then show ?thesis by blast
qed




lemma page_body_contains:
  assumes "page_num \<le> n" and "n < page_num + ipp" and "n < length files"
  shows "set (fst (proc (n - page_num) (files ! n)))
           \<subseteq> set (trace (page_body proc files ipp page_num st))"
proof -
  have "(n - page_num, files ! n) \<in> set (enumerate_py (take ipp (drop page_num files)))"
    using assms by (auto simp: set_enumerate_py)
  then show ?thesis
    unfolding page_body_eq by (rule image_loop_contains)
qed



lemma page_loop_unfold:
  "0 < ipp \<Longrightarrow> page_num < length files \<Longrightarrow>
   page_loop proc files ipp page_num st =
     page_loop proc files ipp (page_num + ipp) (page_body proc files ipp page_num st)"
  by (subst page_loop.simps) simp

lemma page_loop_stop:
  "\<not> (0 < ipp \<and> page_num < length files) \<Longrightarrow> page_loop proc files ipp page_num st = st"
  by (subst page_loop.simps) auto


lemma page_loop_extends:
  "\<exists>evs. trace (page_loop proc files ipp page_num st) = trace st @ evs"
proof (induction proc files ipp page_num st rule: page_loop.induct)
  case (1 proc files ipp page_num st)
  show ?case
  proof (cases "0 < ipp \<and> page_num < length files")
    case True
    obtain evs1 where e1: "trace (page_body proc files ipp page_num st) = trace st @ evs1"
      using page_body_extends by blast
    obtain evs2 where "trace (page_loop proc files ipp (page_num + ipp)
            (page_body proc files ipp page_num st)) =
          trace (page_body proc files ipp page_num st) @ evs2"
      using "1.IH" True by blast
    then have "trace (page_loop proc files ipp page_num st) = trace st @ (evs1 @ evs2)"
      using True e1 by (simp add: page_loop_unfold)
    then show ?thesis by blast
  next
    case False
    then show ?thesis by (simp add: page_loop_stop)
  qed
qed




lemma page_loop_contains:
  assumes "0 < ipp" and "page_num \<le> n" and "n < length files"
  shows "set (fst (proc ((n - page_num) mod ipp) (files ! n)))
           \<subseteq> set (trace (page_loop proc files ipp page_num st))"
  using assms
proof (induction proc files ipp page_num st rule: page_loop.induct)
  case (1 proc files ipp page_num st)
  have lt: "page_num < length files" using "1.prems" by simp
  let ?st1 = "page_body proc files ipp page_num st"
  let ?fin = "page_loop proc files ipp (page_num + ipp) ?st1"
  have fin: "page_loop proc files ipp page_num st = ?fin"
    using "1.prems"(1) lt by (simp add: page_loop_unfold)
  show ?case
  proof (cases "n < page_num + ipp")
    case True
    then have m: "(n - page_num) mod ipp = n - page_num" using "1.prems" by simp
    have "set (fst (proc (n - page_num) (files ! n))) \<subseteq> set (trace ?st1)"
      using "1.prems" True by (intro page_body_contains) simp_all
    moreover obtain evs where "trace ?fin = trace ?st1 @ evs"
      using page_loop_extends by blast
    ultimately show ?thesis
      unfolding fin m by auto
  next
    case False
    then have "n - page_num = (n - (page_num + ipp)) + ipp" by simp
    then have "(n - page_num) mod ipp = (n - (page_num + ipp)) mod ipp"
      by (metis mod_add_self2)
    moreover have "set (fst (proc ((n - (page_num + ipp)) mod ipp) (files ! n))) \<subseteq> set (trace ?fin)"
      using "1.prems" False lt by (intro "1.IH") simp_all
    ultimately show ?thesis
      unfolding fin by simp
  qed
qed





lemma finish_pages_and_save:
  assumes "0 < images_per_page cfg"
  shows "finish (pages_and_save e proc cfg st) =
           trace (page_loop proc (image_files cfg) (nat (images_per_page cfg)) 0 st) @
           (case save_error e of
              None \<Rightarrow> [Save, Finished True Erfolgreich_abgeschlossen]
            | Some msg \<Rightarrow> [Finished False (Fehler_bei_der_Konvertierung (LibraryError msg))])"
  using assms by (simp add: finish_def pages_and_save_def Let_def split: option.splits)

lemma save_tail:
  fixes e :: env
  defines "rest \<equiv> (case save_error e of
              None \<Rightarrow> [Save, Finished True Erfolgreich_abgeschlossen]
            | Some msg \<Rightarrow> [Finished False (Fehler_bei_der_Konvertierung (LibraryError msg))])"
  shows "show_pages rest = 0" and "progress_values rest = []" and "rest \<noteq> []"
    and "save_error e = None \<longrightarrow> last rest = Finished True Erfolgreich_abgeschlossen"
  by (simp_all add: rest_def show_pages_def progress_values_def split: option.splits)

lemma run_images_shape:
  assumes "image_files cfg \<noteq> []" and "0 < images_per_page cfg"
  shows "\<exists>st rest. run_images e cfg =
           trace (page_loop (process_image e cfg) (image_files cfg)
                    (nat (images_per_page cfg)) 0 st) @ rest
         \<and> files_processed st = 0 \<and> show_pages (trace st) = 0
         \<and> progress_values (trace st) = [] \<and> Canvas (high_quality cfg) \<in> set (trace st)
         \<and> show_pages rest = 0 \<and> progress_values rest = [] \<and> rest \<noteq> []
         \<and> (save_error e = None \<longrightarrow> last rest = Finished True Erfolgreich_abgeschlossen)"
proof -
  let ?st0 = "\<lparr>files_processed = 0, trace = [Canvas (high_quality cfg)]\<rparr>"
  let ?st1 = "if images_per_page cfg \<noteq> int (cols * rows)
              then emit [Status Warnung_Bilder_pro_Seite] ?st0 else ?st0"
  let ?rest = "case save_error e of
              None \<Rightarrow> [Save, Finished True Erfolgreich_abgeschlossen]
            | Some msg \<Rightarrow> [Finished False (Fehler_bei_der_Konvertierung (LibraryError msg))]"
  have run: "run_images e cfg = finish (pages_and_save e (process_image e cfg) cfg ?st1)"
    using assms(1) by (simp add: run_images_def convert_images_to_pdf_def Let_def)
  have st: "files_processed ?st1 = 0 \<and> show_pages (trace ?st1) = 0
      \<and> progress_values (trace ?st1) = [] \<and> Canvas (high_quality cfg) \<in> set (trace ?st1)"
    by (simp add: emit_def show_pages_def progress_values_def)
  have "run_images e cfg =
           trace (page_loop (process_image e cfg) (image_files cfg)
                    (nat (images_per_page cfg)) 0 ?st1) @ ?rest
         \<and> files_processed ?st1 = 0 \<and> show_pages (trace ?st1) = 0
         \<and> progress_values (trace ?st1) = [] \<and> Canvas (high_quality cfg) \<in> set (trace ?st1)
         \<and> show_pages ?rest = 0 \<and> progress_values ?rest = [] \<and> ?rest \<noteq> []
         \<and> (save_error e = None \<longrightarrow> last ?rest = Finished True Erfolgreich_abgeschlossen)"
    using st save_tail[of e] finish_pages_and_save[OF assms(2), of e "process_image e cfg" ?st1]
    unfolding run by (intro conjI) simp_all
  then show ?thesis by (intro exI)
qed

lemma run_svgs_shape:
  assumes "image_files cfg \<noteq> []" and "0 < images_per_page cfg"
  shows "\<exists>st rest. run_svgs e cfg =
           trace (page_loop (process_svg e cfg) (image_files cfg)
                    (nat (images_per_page cfg)) 0 st) @ rest
         \<and> files_processed st = 0 \<and> show_pages (trace st) = 0
         \<and> progress_values (trace st) = [] \<and> Canvas (high_quality cfg) \<in> set (trace st)
         \<and> show_pages rest = 0 \<and> progress_values rest = [] \<and> rest \<noteq> []
         \<and> (save_error e = None \<longrightarrow> last rest = Finished True Erfolgreich_abgeschlossen)"
proof -
  let ?st0 = "\<lparr>files_processed = 0, trace = [Canvas (high_quality cfg)]\<rparr>"
  let ?rest = "case save_error e of
              None \<Rightarrow> [Save, Finished True Erfolgreich_abgeschlossen]
            | Some msg \<Rightarrow> [Finished False (Fehler_bei_der_Konvertierung (LibraryError msg))]"
  have run: "run_svgs e cfg = finish (pages_and_save e (process_svg e cfg) cfg ?st0)"
    using assms(1) by (simp add: run_svgs_def convert_svgs_to_pdf_def Let_def)
  have st: "files_processed ?st0 = 0 \<and> show_pages (trace ?st0) = 0
      \<and> progress_values (trace ?st0) = [] \<and> Canvas (high_quality cfg) \<in> set (trace ?st0)"
    by (simp add: show_pages_def progress_values_def)
  have "run_svgs e cfg =
           trace (page_loop (process_svg e cfg) (image_files cfg)
                    (nat (images_per_page cfg)) 0 ?st0) @ ?rest
         \<and> files_processed ?st0 = 0 \<and> show_pages (trace ?st0) = 0
         \<and> progress_values (trace ?st0) = [] \<and> Canvas (high_quality cfg) \<in> set (trace ?st0)
         \<and> show_pages ?rest = 0 \<and> progress_values ?rest = [] \<and> ?rest \<noteq> []
         \<and> (save_error e = None \<longrightarrow> last ?rest = Finished True Erfolgreich_abgeschlossen)"
    using st save_tail[of e] finish_pages_and_save[OF assms(2), of e "process_svg e cfg" ?st0]
    unfolding run by (intro conjI) simp_all
  then show ?thesis by (intro exI)
qed





section \<open>Progress\<close>

















section \<open>Failures of single images\<close>

lemma raises_images_status:
  assumes "raises_images e cfg f msg"
  shows "Status (Fehler_bei (basename e f) (LibraryError msg)) \<in> set (fst (process_image e cfg i f))"
    and "\<not> snd (process_image e cfg i f)"
  using assms
  by (auto simp: raises_images_def process_image_def place_image_def Let_def
      split: if_splits svg_result.splits reader_result.splits option.splits)

lemma raises_svgs_status:
  assumes "raises_svgs e cfg f msg"
  shows "Status (Fehler_bei (basename e f) (LibraryError msg)) \<in> set (fst (process_svg e cfg i f))"
    and "\<not> snd (process_svg e cfg i f)"
  using assms
  by (auto simp: raises_svgs_def process_svg_def place_svg_def Let_def
      split: if_splits svg_result.splits option.splits)

lemma process_svg_uncounted:
  assumes "\<not> snd (process_svg e cfg i f)"
  shows "\<exists>pre x. process_svg e cfg i f = (pre @ [Status (Fehler_bei (basename e f) x)], False)"
proof (cases "svg2rlg e f")
  case (Svg_raises msg)
  then have "process_svg e cfg i f = ([] @ [Status (Fehler_bei (basename e f) (LibraryError msg))], False)"
    by (simp add: process_svg_def Let_def)
  then show ?thesis by blast
next
  case Svg_none
  then show ?thesis using assms by (simp add: process_svg_def Let_def)
next
  case (Svg_drawing w h)
  let ?pl = "place_svg (high_quality cfg) (page_size cfg) i
      (fst (svg_size_svgs (cell_size_svgs (page_size cfg)) w h))
      (snd (svg_size_svgs (cell_size_svgs (page_size cfg)) w h))"
  show ?thesis
  proof (cases ?pl)
    case (Inl x)
    then have "process_svg e cfg i f = ([] @ [Status (Fehler_bei (basename e f) x)], False)"
      using Svg_drawing by (simp add: process_svg_def Let_def)
    then show ?thesis by blast
  next
    case (Inr p)
    show ?thesis
    proof (cases "draw_error e f")
      case None
      then show ?thesis using assms Svg_drawing Inr by (simp add: process_svg_def Let_def)
    next
      case (Some msg)
      then have "process_svg e cfg i f =
          ((if high_quality cfg then [SetPageCompression] else []) @
           [Status (Fehler_bei (basename e f) (LibraryError msg))], False)"
        using Svg_drawing Inr by (simp add: process_svg_def Let_def)
      then show ?thesis by blast
    qed
  qed
qed

lemma process_image_uncounted:
  assumes "\<not> snd (process_image e cfg i f)"
  shows "(\<exists>pre x. process_image e cfg i f = (pre @ [Status (Fehler_bei (basename e f) x)], False))
       \<or> process_image e cfg i f = ([Status (Uebersprungen (basename e f))], False)"
proof -
  have placed: "\<exists>pre x. (case place_image (page_size cfg) i w h of
        Inl x \<Rightarrow> ([] @ [Status (Fehler_bei (basename e f) x)], False)
      | Inr p \<Rightarrow>
         (case draw_error e f of
            Some msg \<Rightarrow> ((if high_quality cfg then [SetPageCompression] else []) @
                          [Status (Fehler_bei (basename e f) (LibraryError msg))], False)
          | None \<Rightarrow> (ok p, True))) = (pre @ [Status (Fehler_bei (basename e f) x)], False)"
    if "\<not> snd (case place_image (page_size cfg) i w h of
        Inl x \<Rightarrow> ([] @ [Status (Fehler_bei (basename e f) x)], False)
      | Inr p \<Rightarrow>
         (case draw_error e f of
            Some msg \<Rightarrow> ((if high_quality cfg then [SetPageCompression] else []) @
                          [Status (Fehler_bei (basename e f) (LibraryError msg))], False)
          | None \<Rightarrow> (ok p, True)))" for w h and ok :: "placement \<Rightarrow> event list"
  proof (cases "place_image (page_size cfg) i w h")
    case (Inl x)
    then show ?thesis by (simp del: append_Nil) (blast?)
  next
    case (Inr p)
    show ?thesis
    proof (cases "draw_error e f")
      case None
      then show ?thesis using that Inr by simp
    next
      case (Some msg)
      then show ?thesis using Inr by simp (blast?)
    qed
  qed
  show ?thesis
  proof (cases "suffix_lower e f = ''.svg''")
    case True
    show ?thesis
    proof (cases "svg2rlg e f")
      case (Svg_raises msg)
      then have "process_image e cfg i f =
          ([] @ [Status (Fehler_bei (basename e f) (LibraryError msg))], False)"
        using True by (simp add: process_image_def Let_def)
      then show ?thesis by blast
    next
      case Svg_none
      show ?thesis
        using assms True Svg_none
          placed[where w = "fst (svg_size_images (cell_size_images (page_size cfg)) Svg_none)"
            and h = "snd (svg_size_images (cell_size_images (page_size cfg)) Svg_none)"]
        by (simp add: process_image_def Let_def)
    next
      case (Svg_drawing w h)
      show ?thesis
        using assms True Svg_drawing
          placed[where w = "fst (svg_size_images (cell_size_images (page_size cfg)) (Svg_drawing w h))"
            and h = "snd (svg_size_images (cell_size_images (page_size cfg)) (Svg_drawing w h))"]
        by (simp add: process_image_def Let_def)
    qed
  next
    case False
    show ?thesis
    proof (cases "suffix_lower e f \<in> set raster_exts")
      case True
      show ?thesis
      proof (cases "ImageReader e f")
        case (Reader_raises msg)
        then have "process_image e cfg i f =
            ([] @ [Status (Fehler_bei (basename e f) (LibraryError msg))], False)"
          using True False by (simp add: process_image_def Let_def)
        then show ?thesis by blast
      next
        case (Reader_size w h)
        show ?thesis
          using assms True False Reader_size placed[where w = w and h = h]
          by (simp add: process_image_def Let_def)
      qed
    next
      case nr: False
      then show ?thesis using False by (simp add: process_image_def Let_def)
    qed
  qed
qed

lemma shape_contains:
  assumes shape: "r = trace (page_loop proc files (nat ipp) 0 st) @ rest"
    and pos: "0 < ipp" and n: "n < length files"
  shows "set (fst (proc (n mod nat ipp) (files ! n))) \<subseteq> set r"
proof -
  have "set (fst (proc ((n - 0) mod nat ipp) (files ! n)))
      \<subseteq> set (trace (page_loop proc files (nat ipp) 0 st))"
    using pos n by (intro page_loop_contains) simp_all
  then show ?thesis unfolding shape by auto
qed

lemma shape_last:
  assumes "r = xs @ rest" and "rest \<noteq> []" and "last rest = x"
  shows "last r = x"
  using assms by simp

text \<open>
  C8. In a run over a non-empty list with a positive \<open>images_per_page\<close> whose \<open>save\<close>
  succeeds, no failure of a single image reaches the terminal result: the run ends with
  \<open>finished_signal(True, ...)\<close>. The events of every file of the list, at its in-batch
  index, are part of the run, whatever happened to the files before it. For a file whose
  loading or drawing raises, these events hold the status naming the file and the cause.
  A \<open>try\<close> block that does not fall through ends with a status naming its file: the
  error status of the handler or, in img2pdf_v2.py, the skip status.
\<close>

theorem image_failure_caught:
  assumes "image_files cfg \<noteq> []" and "0 < images_per_page cfg" and "save_error e = None"
    and "n < length (image_files cfg)"
  shows "last (run_images e cfg) = Finished True Erfolgreich_abgeschlossen
       \<and> last (run_svgs e cfg) = Finished True Erfolgreich_abgeschlossen
       \<and> set (fst (process_image e cfg (n mod nat (images_per_page cfg)) (image_files cfg ! n)))
            \<subseteq> set (run_images e cfg)
       \<and> set (fst (process_svg e cfg (n mod nat (images_per_page cfg)) (image_files cfg ! n)))
            \<subseteq> set (run_svgs e cfg)
       \<and> (raises_images e cfg (image_files cfg ! n) msg \<longrightarrow>
            Status (Fehler_bei (basename e (image_files cfg ! n)) (LibraryError msg))
              \<in> set (run_images e cfg))
       \<and> (raises_svgs e cfg (image_files cfg ! n) msg \<longrightarrow>
            Status (Fehler_bei (basename e (image_files cfg ! n)) (LibraryError msg))
              \<in> set (run_svgs e cfg))
       \<and> (\<not> snd (process_image e cfg i f) \<longrightarrow>
            (\<exists>pre x. process_image e cfg i f =
               (pre @ [Status (Fehler_bei (basename e f) x)], False))
          \<or> process_image e cfg i f = ([Status (Uebersprungen (basename e f))], False))
       \<and> (\<not> snd (process_svg e cfg i f) \<longrightarrow>
            (\<exists>pre x. process_svg e cfg i f =
               (pre @ [Status (Fehler_bei (basename e f) x)], False)))"
proof -
  let ?k = "nat (images_per_page cfg)"
  let ?f = "image_files cfg ! n"
  obtain st1 rest1 where 1: "run_images e cfg =
      trace (page_loop (process_image e cfg) (image_files cfg) ?k 0 st1) @ rest1"
    "rest1 \<noteq> []" "save_error e = None \<longrightarrow> last rest1 = Finished True Erfolgreich_abgeschlossen"
    using run_images_shape[OF assms(1,2), of e] by (elim exE conjE) auto
  obtain st2 rest2 where 2: "run_svgs e cfg =
      trace (page_loop (process_svg e cfg) (image_files cfg) ?k 0 st2) @ rest2"
    "rest2 \<noteq> []" "save_error e = None \<longrightarrow> last rest2 = Finished True Erfolgreich_abgeschlossen"
    using run_svgs_shape[OF assms(1,2), of e] by (elim exE conjE) auto
  have l1: "last (run_images e cfg) = Finished True Erfolgreich_abgeschlossen"
    using shape_last[OF 1(1,2)] 1(3) assms(3) by simp
  have l2: "last (run_svgs e cfg) = Finished True Erfolgreich_abgeschlossen"
    using shape_last[OF 2(1,2)] 2(3) assms(3) by simp
  have c1: "set (fst (process_image e cfg (n mod ?k) ?f)) \<subseteq> set (run_images e cfg)"
    using 1(1) assms(2,4) by (rule shape_contains)
  have c2: "set (fst (process_svg e cfg (n mod ?k) ?f)) \<subseteq> set (run_svgs e cfg)"
    using 2(1) assms(2,4) by (rule shape_contains)
  have r1: "raises_images e cfg ?f msg \<longrightarrow>
      Status (Fehler_bei (basename e ?f) (LibraryError msg)) \<in> set (run_images e cfg)"
    using raises_images_status(1)[of e cfg ?f msg "n mod ?k"] c1 by blast
  have r2: "raises_svgs e cfg ?f msg \<longrightarrow>
      Status (Fehler_bei (basename e ?f) (LibraryError msg)) \<in> set (run_svgs e cfg)"
    using raises_svgs_status(1)[of e cfg ?f msg "n mod ?k"] c2 by blast
  have u1: "\<not> snd (process_image e cfg i f) \<longrightarrow>
            (\<exists>pre x. process_image e cfg i f =
               (pre @ [Status (Fehler_bei (basename e f) x)], False))
          \<or> process_image e cfg i f = ([Status (Uebersprungen (basename e f))], False)"
    using process_image_uncounted[of e cfg i f] by blast
  have u2: "\<not> snd (process_svg e cfg i f) \<longrightarrow>
            (\<exists>pre x. process_svg e cfg i f =
               (pre @ [Status (Fehler_bei (basename e f) x)], False))"
    using process_svg_uncounted[of e cfg i f] by blast
  show ?thesis
    using l1 l2 c1 c2 r1 r2 u1 u2 by (intro conjI)
qed

theorem image_failure_caught_witness:
  "image_files (example_cfg [''a.svg'', ''b.png'', ''c.txt'', ''d.svg'', ''e.svg''] 2) \<noteq> []
   \<and> 0 < images_per_page (example_cfg [''a.svg'', ''b.png'', ''c.txt'', ''d.svg'', ''e.svg''] 2)
   \<and> save_error example_env = None
   \<and> 3 < length (image_files (example_cfg [''a.svg'', ''b.png'', ''c.txt'', ''d.svg'', ''e.svg''] 2))
   \<and> raises_images example_env
        (example_cfg [''a.svg'', ''b.png'', ''c.txt'', ''d.svg'', ''e.svg''] 2) ''d.svg'' ''bad''
   \<and> raises_svgs example_env
        (example_cfg [''a.svg'', ''b.png'', ''c.txt'', ''d.svg'', ''e.svg''] 2) ''d.svg'' ''bad''
   \<and> last (run_images example_env
        (example_cfg [''a.svg'', ''b.png'', ''c.txt'', ''d.svg'', ''e.svg''] 2))
       = Finished True Erfolgreich_abgeschlossen
   \<and> Status (Fehler_bei ''d.svg'' (LibraryError ''bad''))
       \<in> set (run_images example_env
            (example_cfg [''a.svg'', ''b.png'', ''c.txt'', ''d.svg'', ''e.svg''] 2))
   \<and> last (run_svgs example_env
        (example_cfg [''a.svg'', ''b.png'', ''c.txt'', ''d.svg'', ''e.svg''] 2))
       = Finished True Erfolgreich_abgeschlossen
   \<and> Status (Fehler_bei ''d.svg'' (LibraryError ''bad''))
       \<in> set (run_svgs example_env
            (example_cfg [''a.svg'', ''b.png'', ''c.txt'', ''d.svg'', ''e.svg''] 2))"
proof -
  let ?cfg = "example_cfg [''a.svg'', ''b.png'', ''c.txt'', ''d.svg'', ''e.svg''] 2"
  have h1: "image_files ?cfg \<noteq> []" by (simp add: example_cfg_def)
  have h2: "0 < images_per_page ?cfg" by (simp add: example_cfg_def)
  have h3: "save_error example_env = None" by (simp add: example_env_def)
  have h4: "3 < length (image_files ?cfg)" by (simp add: example_cfg_def)
  have f: "image_files ?cfg ! 3 = ''d.svg''" by (simp add: example_cfg_def)
  have b: "basename example_env ''d.svg'' = ''d.svg''" by (simp add: example_env_def)
  have r1: "raises_images example_env ?cfg ''d.svg'' ''bad''"
    by (simp add: raises_images_def example_env_def)
  have r2: "raises_svgs example_env ?cfg ''d.svg'' ''bad''"
    by (simp add: raises_svgs_def example_env_def)
  note t = image_failure_caught[OF h1 h2 h3 h4, where msg = "''bad''", unfolded f b]
  show ?thesis
    using h1 h2 h3 h4 r1 r2 t by simp
qed

section \<open>More than nine images on a page\<close>










end
